theory Spec2Isabelle
  imports Main
begin

section \<open>Python values, dictionaries and errors\<close>

text \<open>
  The values that occur as keyword arguments of \<open>CertSimple\<close> and as entries of the
  \<open>sanic\<close> attribute dictionary: \<open>None\<close>, a \<open>str\<close> (file names, password) and a
  list of \<open>str\<close> (the \<open>names\<close> entry). Strings are ASCII strings.
\<close>

datatype pyval = PyNone | PyStr string | PyStrs "string list"

text \<open>Python truthiness (\<open>if x\<close>, \<open>not x\<close>, \<open>x or y\<close>).\<close>

fun truthy :: "pyval \<Rightarrow> bool" where
  "truthy PyNone = False"
| "truthy (PyStr s) = (s \<noteq> [])"
| "truthy (PyStrs xs) = (xs \<noteq> [])"

definition py_or :: "pyval \<Rightarrow> pyval \<Rightarrow> pyval" where
  "py_or a b = (if truthy a then a else b)"

text \<open>A \<open>dict\<close> with \<open>str\<close> keys; no operation of the module depends on its order.\<close>

type_synonym dict = "string \<rightharpoonup> pyval"

definition dict_get :: "dict \<Rightarrow> string \<Rightarrow> pyval \<Rightarrow> pyval" where
  \<comment> \<open>\<open>d.get(k, default)\<close>\<close>
  "dict_get d k dflt = (case d k of None \<Rightarrow> dflt | Some v \<Rightarrow> v)"

definition dict_pop :: "dict \<Rightarrow> string \<Rightarrow> pyval \<Rightarrow> pyval \<times> dict" where
  \<comment> \<open>\<open>d.pop(k, default)\<close>: the value and the dictionary without the key\<close>
  "dict_pop d k dflt = (dict_get d k dflt, d(k := None))"

text \<open>
  The exceptions of the module, one constructor for each \<open>raise\<close> (the message of the
  source in the comment), for the exceptions Python raises by itself on the paths
  modelled, and one for whatever the \<open>ssl\<close> and \<open>os\<close> modules raise.
\<close>

datatype error =
    ValueError_no_sni
      \<comment> \<open>\<open>ValueError("The client provided no SNI to match for certificate.")\<close>\<close>
  | ValueError_no_match "string option"
      \<comment> \<open>\<open>ValueError(f"No certificate found matching hostname {server_name!r}")\<close>\<close>
  | ValueError_ssl_dict
      \<comment> \<open>\<open>ValueError("SSL dict needs filenames for cert and key.")\<close>\<close>
  | ValueError_no_names
      \<comment> \<open>\<open>ValueError("No certificates with SubjectAlternativeNames found.")\<close>\<close>
  | ValueError_is_file string
      \<comment> \<open>\<open>ValueError(f"Certificate folder expected but {p} is a file.")\<close>\<close>
  | ValueError_not_found string
      \<comment> \<open>\<open>ValueError(f"Certificate not found or permission denied {file}")\<close>\<close>
  | ValueError_invalid_ssl
      \<comment> \<open>\<open>ValueError(f"Invalid ssl argument {type(ctxdef)}. ...")\<close>\<close>
  | TypeError_missing_args "string list"
      \<comment> \<open>\<open>TypeError\<close>: missing required positional arguments\<close>
  | TypeError_multiple_values string
      \<comment> \<open>\<open>TypeError\<close>: got multiple values for an argument\<close>
  | TypeError_not_iterable
      \<comment> \<open>\<open>TypeError\<close>: \<open>'NoneType' object is not iterable\<close>\<close>
  | KeyError string
  | SSLError string
      \<comment> \<open>raised by the platform: \<open>load_cert_chain\<close>, \<open>_test_decode_cert\<close>\<close>

fun is_ValueError :: "error \<Rightarrow> bool" where
  "is_ValueError ValueError_no_sni = True"
| "is_ValueError (ValueError_no_match _) = True"
| "is_ValueError ValueError_ssl_dict = True"
| "is_ValueError ValueError_no_names = True"
| "is_ValueError (ValueError_is_file _) = True"
| "is_ValueError (ValueError_not_found _) = True"
| "is_ValueError ValueError_invalid_ssl = True"
| "is_ValueError _ = False"

section \<open>Strings\<close>

definition lower_char :: "char \<Rightarrow> char" where
  "lower_char c =
     (case map_of (zip ''ABCDEFGHIJKLMNOPQRSTUVWXYZ'' ''abcdefghijklmnopqrstuvwxyz'') c of
        None \<Rightarrow> c
      | Some l \<Rightarrow> l)"

definition lower :: "string \<Rightarrow> string" where
  \<comment> \<open>\<open>s.lower()\<close> on an ASCII string\<close>
  "lower s = map lower_char s"

definition startswith :: "string \<Rightarrow> string \<Rightarrow> bool" where
  \<comment> \<open>\<open>s.startswith(p)\<close>\<close>
  "startswith s p = (take (length p) s = p)"

definition split1 :: "char \<Rightarrow> string \<Rightarrow> string list" where
  \<comment> \<open>\<open>s.split(sep, 1)\<close> for a separator of one character: at most one split, at the
      first separator\<close>
  "split1 sep s =
     (case dropWhile (\<lambda>c. c \<noteq> sep) s of
        [] \<Rightarrow> [s]
      | _ # rest \<Rightarrow> [takeWhile (\<lambda>c. c \<noteq> sep) s, rest])"

fun join :: "string \<Rightarrow> string list \<Rightarrow> string" where
  \<comment> \<open>\<open>sep.join(xs)\<close>\<close>
  "join sep [] = []"
| "join sep [x] = x"
| "join sep (x # y # ys) = x @ sep @ join sep (y # ys)"

fun py_iter :: "pyval \<Rightarrow> error + string list" where
  \<comment> \<open>what a \<open>for\<close> loop or \<open>list +=\<close> iterates over: the items of a list, the characters
      of a string; \<open>None\<close> is not iterable\<close>
  "py_iter (PyStrs xs) = Inr xs"
| "py_iter (PyStr s) = Inr (map (\<lambda>c. [c]) s)"
| "py_iter PyNone = Inl TypeError_not_iterable"

section \<open>TLS contexts\<close>

datatype tls_version = TLSv1_2

datatype sni_callback_fn = Server_name_callback | Selector_sni_callback

text \<open>
  An \<open>ssl.SSLContext\<close>: the settings \<open>create_context\<close> makes, the certificate chain
  loaded (certfile, keyfile, password), and the \<open>sanic\<close> attribute: \<open>None\<close> where the
  object has no such attribute (a plain context), the dictionary on a \<open>CertSimple\<close>.
\<close>

record ssl_context =
  minimum_version :: tls_version
  ciphers :: string
  alpn_protocols :: "string list"
  sni_callback :: sni_callback_fn
  cert_chain :: "(pyval \<times> pyval \<times> pyval) option"
  sanic :: "dict option"

text \<open>What \<open>ssl._ssl._test_decode_cert\<close> returns, as far as the module reads it.\<close>

record decoded_cert =
  subject :: "(string \<times> string) list list"
  subjectAltName :: "(string \<times> string) list option"

text \<open>The platform the module runs on: the certificate functions of \<open>ssl\<close>, the file
  tests of \<open>os\<close>.\<close>

record platform =
  load_cert_chain :: "pyval \<Rightarrow> pyval \<Rightarrow> pyval \<Rightarrow> error option"
  test_decode_cert :: "pyval \<Rightarrow> error + decoded_cert"
  isfile :: "string \<Rightarrow> bool"
  access_R_OK :: "string \<Rightarrow> bool"

definition CIPHERS_TLS12 :: "string list" where
  "CIPHERS_TLS12 =
     [''ECDHE-ECDSA-CHACHA20-POLY1305'',
      ''ECDHE-ECDSA-AES256-GCM-SHA384'',
      ''ECDHE-ECDSA-AES128-GCM-SHA256'',
      ''ECDHE-RSA-CHACHA20-POLY1305'',
      ''ECDHE-RSA-AES256-GCM-SHA384'',
      ''ECDHE-RSA-AES128-GCM-SHA256'']"

definition create_context :: "platform \<Rightarrow> pyval \<Rightarrow> pyval \<Rightarrow> pyval \<Rightarrow> error + ssl_context" where
  "create_context pf certfile keyfile password =
     (let context = \<lparr>minimum_version = TLSv1_2,
                     ciphers = join '':'' CIPHERS_TLS12,
                     alpn_protocols = [''http/1.1''],
                     sni_callback = Server_name_callback,
                     cert_chain = None,
                     sanic = None\<rparr>
      in if truthy certfile \<and> truthy keyfile then
           (case load_cert_chain pf certfile keyfile password of
              Some e \<Rightarrow> Inl e
            | None \<Rightarrow> Inr (context\<lparr>cert_chain := Some (certfile, keyfile, password)\<rparr>))
         else Inr context)"

section \<open>CertSimple\<close>

definition CertSimple_new :: "platform \<Rightarrow> pyval \<Rightarrow> pyval \<Rightarrow> dict \<Rightarrow> error + ssl_context" where
  \<comment> \<open>\<open>CertSimple.__new__(cls, cert, key, **kw)\<close>\<close>
  "CertSimple_new pf cert key kw0 =
     (let (certificate, kw1) = dict_pop kw0 ''certificate'' PyNone;
          certfile = py_or certificate cert;
          kw2 = kw1(''cert'' \<mapsto> certfile);
          (keyfile_alias, kw3) = dict_pop kw2 ''keyfile'' PyNone;
          keyfile = py_or keyfile_alias key;
          kw4 = kw3(''key'' \<mapsto> keyfile);
          (password, kw) = dict_pop kw4 ''password'' PyNone
      in if \<not> truthy certfile \<or> \<not> truthy keyfile then Inl ValueError_ssl_dict
         else
           (case
              (if kw ''names'' = None then
                 (case test_decode_cert pf certfile of
                    Inl e \<Rightarrow> Inl e
                  | Inr cert \<Rightarrow>
                      (case subjectAltName cert of
                         None \<Rightarrow> Inl (KeyError ''subjectAltName'')
                       | Some san \<Rightarrow>
                           Inr (fold (\<lambda>(k, v) d. d(k \<mapsto> PyStr v)) (concat (subject cert)) Map.empty,
                                kw(''names'' \<mapsto>
                                     PyStrs (map snd (filter (\<lambda>(t, name). t \<in> set [''DNS'', ''IP Address'']) san))))))
               else Inr (Map.empty, kw))
            of
              Inl e \<Rightarrow> Inl e
            | Inr (subj, kw') \<Rightarrow>
                (case create_context pf certfile keyfile password of
                   Inl e \<Rightarrow> Inl e
                 | Inr self \<Rightarrow> Inr (self\<lparr>sanic := Some (subj ++ kw')\<rparr>))))"

definition CertSimple :: "platform \<Rightarrow> dict \<Rightarrow> error + ssl_context" where
  \<comment> \<open>the call \<open>CertSimple(**ctxdef)\<close>: the keys \<open>cert\<close> and \<open>key\<close> bind the two
      parameters of \<open>__new__\<close> that have no default, every other key goes to \<open>kw\<close>;
      \<open>__init__(self, cert, key, **kw)\<close> then receives the same arguments and does
      nothing\<close>
  "CertSimple pf ctxdef =
     (if ctxdef ''cls'' \<noteq> None then Inl (TypeError_multiple_values ''cls'')
      else
        (case (ctxdef ''cert'', ctxdef ''key'') of
           (Some cert, Some key) \<Rightarrow>
             (case CertSimple_new pf cert key (ctxdef(''cert'' := None, ''key'' := None)) of
                Inl e \<Rightarrow> Inl e
              | Inr self \<Rightarrow>
                  if ctxdef ''self'' \<noteq> None then Inl (TypeError_multiple_values ''self'')
                  else Inr self)
         | _ \<Rightarrow>
             Inl (TypeError_missing_args
                    (filter (\<lambda>k. ctxdef k = None) [''cert'', ''key'']))))"

definition path_join :: "string \<Rightarrow> string \<Rightarrow> string" where
  \<comment> \<open>\<open>os.path.join(p, name)\<close> for a relative \<open>name\<close>\<close>
  "path_join p name = (if p = [] \<or> last p = CHR ''/'' then p @ name else p @ ''/'' @ name)"

definition load_cert_dir :: "platform \<Rightarrow> string \<Rightarrow> error + ssl_context" where
  "load_cert_dir pf p =
     (if isfile pf p then Inl (ValueError_is_file p)
      else
        (let keyfile = path_join p ''privkey.pem'';
             certfile = path_join p ''fullchain.pem''
         in if \<not> access_R_OK pf keyfile then Inl (ValueError_not_found keyfile)
            else if \<not> access_R_OK pf certfile then Inl (ValueError_not_found certfile)
            else CertSimple_new pf (PyStr certfile) (PyStr keyfile) Map.empty))"

text \<open>The shapes of an \<open>ssl\<close> argument that \<open>shorthand_to_ctx\<close> tells apart.\<close>

datatype ctxdef = DefNone | DefContext ssl_context | DefStr string | DefDict dict | DefOther

fun shorthand_to_ctx :: "platform \<Rightarrow> ctxdef \<Rightarrow> error + ssl_context option" where
  "shorthand_to_ctx pf DefNone = Inr None"
| "shorthand_to_ctx pf (DefContext c) = Inr (Some c)"
| "shorthand_to_ctx pf (DefStr p) = map_sum id Some (load_cert_dir pf p)"
| "shorthand_to_ctx pf (DefDict d) = map_sum id Some (CertSimple pf d)"
| "shorthand_to_ctx pf DefOther = Inl ValueError_invalid_ssl"

section \<open>Hostname matching\<close>

definition names_of :: "ssl_context \<Rightarrow> pyval" where
  \<comment> \<open>\<open>dict(getattr(ctx, "sanic", {})).get("names", [])\<close>\<close>
  "names_of ctx = dict_get (case sanic ctx of None \<Rightarrow> Map.empty | Some d \<Rightarrow> d) ''names'' (PyStrs [])"

fun match_names :: "string list \<Rightarrow> string \<Rightarrow> bool" where
  \<comment> \<open>the loop \<open>for name in names\<close> of \<open>match_hostname\<close>, on the lower-cased hostname\<close>
  "match_names [] hostname = False"
| "match_names (name # names) hostname =
     (if startswith name ''*.'' then
        (if last (split1 CHR ''.'' hostname) = drop 2 name then True
         else match_names names hostname)
      else if name = hostname then True
      else match_names names hostname)"

definition match_hostname :: "ssl_context \<Rightarrow> string \<Rightarrow> error + bool" where
  "match_hostname ctx hostname =
     (let names = names_of ctx;
          hostname = lower hostname
      in case py_iter names of
           Inl e \<Rightarrow> Inl e
         | Inr ns \<Rightarrow> Inr (match_names ns hostname))"

section \<open>CertSelector\<close>

record cert_selector =
  sanic_select :: "ssl_context list"
  sanic_fallback :: "ssl_context option"

fun init_loop ::
  "nat \<Rightarrow> ssl_context option list \<Rightarrow> string list \<times> ssl_context list \<times> ssl_context option \<Rightarrow>
   error + string list \<times> ssl_context list \<times> ssl_context option" where
  \<comment> \<open>the loop \<open>for i, ctx in enumerate(ctxs)\<close> of \<open>CertSelector.__init__\<close> on the state
      \<open>(all_names, self.sanic_select, self.sanic_fallback)\<close>\<close>
  "init_loop i [] st = Inr st"
| "init_loop i (None # ctxs) st = init_loop (Suc i) ctxs st"
| "init_loop i (Some ctx # ctxs) (all_names, select, fallback) =
     (case py_iter (names_of ctx) of
        Inl e \<Rightarrow> Inl e
      | Inr names \<Rightarrow>
          init_loop (Suc i) ctxs
            (all_names @ names, select @ [ctx], if i = 0 then Some ctx else fallback))"

definition CertSelector_init :: "ssl_context option list \<Rightarrow> error + cert_selector" where
  \<comment> \<open>\<open>CertSelector(ctxs)\<close>\<close>
  "CertSelector_init ctxs =
     (case init_loop 0 ctxs ([], [], None) of
        Inl e \<Rightarrow> Inl e
      | Inr (all_names, select, fallback) \<Rightarrow>
          if all_names = [] then Inl ValueError_no_names
          else Inr \<lparr>sanic_select = select, sanic_fallback = fallback\<rparr>)"

fun find_first :: "ssl_context list \<Rightarrow> string \<Rightarrow> error + ssl_context option" where
  \<comment> \<open>the loop \<open>for ctx in self.sanic_select\<close> of \<open>find_cert\<close>\<close>
  "find_first [] server_name = Inr None"
| "find_first (ctx # ctxs) server_name =
     (case match_hostname ctx server_name of
        Inl e \<Rightarrow> Inl e
      | Inr True \<Rightarrow> Inr (Some ctx)
      | Inr False \<Rightarrow> find_first ctxs server_name)"

fun find_cert :: "cert_selector \<Rightarrow> string option \<Rightarrow> error + ssl_context" where
  \<comment> \<open>the server name is \<open>None\<close> when the client sent no SNI\<close>
  "find_cert self None =
     (case sanic_fallback self of
        Some fb \<Rightarrow> Inr fb
      | None \<Rightarrow> Inl ValueError_no_sni)"
| "find_cert self (Some server_name) =
     (if server_name = [] then
        (case sanic_fallback self of
           Some fb \<Rightarrow> Inr fb
         | None \<Rightarrow> Inl ValueError_no_sni)
      else
        (case find_first (sanic_select self) server_name of
           Inl e \<Rightarrow> Inl e
         | Inr (Some ctx) \<Rightarrow> Inr ctx
         | Inr None \<Rightarrow>
             (case sanic_fallback self of
                Some fb \<Rightarrow> Inr fb
              | None \<Rightarrow> Inl (ValueError_no_match (Some server_name)))))"

section \<open>The SNI callbacks\<close>

datatype context_ref = Selector cert_selector | Context ssl_context

text \<open>
  An \<open>ssl.SSLObject\<close> during the handshake: the attribute \<open>sanic_server_name\<close>
  (\<open>None\<close> while it is not set, \<open>Some None\<close> when it holds Python's \<open>None\<close>) and the
  context in use.
\<close>

record ssl_object =
  sanic_server_name :: "string option option"
  "context" :: context_ref

definition ALERT_DESCRIPTION_UNRECOGNIZED_NAME :: int where
  "ALERT_DESCRIPTION_UNRECOGNIZED_NAME = 112"

definition server_name_callback :: "ssl_object \<Rightarrow> string option \<Rightarrow> ssl_object" where
  "server_name_callback sslobj server_name = sslobj\<lparr>sanic_server_name := Some server_name\<rparr>"

definition selector_sni_callback ::
  "ssl_object \<Rightarrow> string option \<Rightarrow> cert_selector \<Rightarrow> ssl_object \<times> (error + int option)" where
  \<comment> \<open>the object as the call leaves it, and what the call returns (\<open>Inr\<close>) or the
      exception that is not a \<open>ValueError\<close> and leaves it (\<open>Inl\<close>)\<close>
  "selector_sni_callback sslobj server_name ctx =
     (let sslobj = server_name_callback sslobj server_name
      in case find_cert ctx server_name of
           Inr found \<Rightarrow> (sslobj\<lparr>context := Context found\<rparr>, Inr None)
         | Inl e \<Rightarrow>
             if is_ValueError e then (sslobj, Inr (Some ALERT_DESCRIPTION_UNRECOGNIZED_NAME))
             else (sslobj, Inl e))"

section \<open>Notions of the specification and example data\<close>

definition after_first_dot :: "string \<Rightarrow> string" where
  \<comment> \<open>the specification's "portion of the hostname after its first dot"\<close>
  "after_first_dot s = tl (dropWhile (\<lambda>c. c \<noteq> CHR ''.'') s)"

definition served_names :: "ssl_context \<Rightarrow> string list" where
  \<comment> \<open>the specification's \<open>servedNames\<close> of an identity: the items of its \<open>names\<close>\<close>
  "served_names ctx = (case py_iter (names_of ctx) of Inl e \<Rightarrow> [] | Inr ns \<Rightarrow> ns)"

definition survivors :: "ssl_context option list \<Rightarrow> ssl_context list" where
  \<comment> \<open>the entries of a caller-supplied list that are not \<open>None\<close>, in their order\<close>
  "survivors ctxs = concat (map (\<lambda>c. case c of None \<Rightarrow> [] | Some ctx \<Rightarrow> [ctx]) ctxs)"

definition certsimple_with_names :: "string \<Rightarrow> string \<Rightarrow> string list \<Rightarrow> ssl_context" where
  \<comment> \<open>the object \<open>CertSimple(cert, key, names=names)\<close> returns when the chain loads\<close>
  "certsimple_with_names cert key names =
     \<lparr>minimum_version = TLSv1_2,
      ciphers = join '':'' CIPHERS_TLS12,
      alpn_protocols = [''http/1.1''],
      sni_callback = Server_name_callback,
      cert_chain = Some (PyStr cert, PyStr key, PyNone),
      sanic = Some [''cert'' \<mapsto> PyStr cert, ''key'' \<mapsto> PyStr key, ''names'' \<mapsto> PyStrs names]\<rparr>"


definition loading_platform :: platform where
  \<comment> \<open>a platform where every certificate chain loads and no certificate decodes\<close>
  "loading_platform =
     \<lparr>load_cert_chain = (\<lambda>certfile keyfile password. None),
      test_decode_cert = (\<lambda>certfile. Inl (SSLError ''decode'')),
      isfile = (\<lambda>p. False),
      access_R_OK = (\<lambda>p. True)\<rparr>"

definition resolved_kw :: "dict \<Rightarrow> pyval \<Rightarrow> pyval \<Rightarrow> dict" where
  \<comment> \<open>the keyword arguments once \<open>__new__\<close> has renamed the aliases and taken the
      password out: the caller's entries and the resolved \<open>cert\<close> and \<open>key\<close>\<close>
  "resolved_kw kw certfile keyfile =
     (kw(''certificate'' := None, ''cert'' \<mapsto> certfile, ''keyfile'' := None,
         ''key'' \<mapsto> keyfile, ''password'' := None))"

section \<open>Properties of the hostname matcher\<close>

lemma dropWhile_sep_Nil: "(dropWhile (\<lambda>c. c \<noteq> sep) h = []) = (sep \<notin> set h)"
  by (induction h) simp_all

lemma last_split1:
  "last (split1 CHR ''.'' h) = (if CHR ''.'' \<in> set h then after_first_dot h else h)"
proof (cases "dropWhile (\<lambda>c. c \<noteq> CHR ''.'') h")
  case Nil
  have nd: "CHR ''.'' \<notin> set h" using Nil [unfolded dropWhile_sep_Nil] .
  have "split1 CHR ''.'' h = [h]" unfolding split1_def Nil by simp
  with nd show ?thesis by simp
next
  case (Cons a rest)
  then have ne: "dropWhile (\<lambda>c. c \<noteq> CHR ''.'') h \<noteq> []" by simp
  have d: "CHR ''.'' \<in> set h" using ne [unfolded dropWhile_sep_Nil] by (simp only: not_not)
  have "last (split1 CHR ''.'' h) = rest" unfolding split1_def Cons by simp
  moreover have "after_first_dot h = rest" unfolding after_first_dot_def Cons by simp
  ultimately show ?thesis using d by simp
qed

lemma match_names_iff:
  "match_names names h =
     (\<exists>name \<in> set names.
        if startswith name ''*.'' then last (split1 CHR ''.'' h) = drop 2 name else name = h)"
  by (induction names) simp_all

lemma startswith_wildcard: "startswith name ''*.'' = (\<exists>suffix. name = ''*.'' @ suffix)"
proof
  assume "startswith name ''*.''"
  then have "take 2 name = ''*.''" by (simp add: startswith_def numeral_2_eq_2)
  then have "name = ''*.'' @ drop 2 name" by (metis append_take_drop_id)
  then show "\<exists>suffix. name = ''*.'' @ suffix" ..
next
  assume "\<exists>suffix. name = ''*.'' @ suffix"
  then obtain suffix where "name = ''*.'' @ suffix" ..
  then show "startswith name ''*.''" by (simp add: startswith_def)
qed

lemma lower_char_dot: "(lower_char c = CHR ''.'') = (c = CHR ''.'')"
  by (simp add: lower_char_def)

lemma dot_in_lower: "(CHR ''.'' \<in> set (lower h)) = (CHR ''.'' \<in> set h)"
  by (induction h) (simp_all add: lower_def lower_char_dot eq_commute [of "CHR ''.''"])

lemma names_of_certsimple_with_names:
  "names_of (certsimple_with_names c k ns) = PyStrs ns"
  by (simp add: names_of_def certsimple_with_names_def dict_get_def)

lemma match_hostname_names:
  "names_of ctx = PyStrs names \<Longrightarrow>
   match_hostname ctx hostname = Inr (match_names names (lower hostname))"
  by (simp add: match_hostname_def)

lemma match_hostname_iff:
  assumes "names_of ctx = PyStrs names"
  shows "match_hostname ctx hostname =
     Inr (\<exists>name \<in> set names.
            (\<exists>suffix. name = ''*.'' @ suffix \<and>
               (if CHR ''.'' \<in> set hostname then after_first_dot (lower hostname)
                else lower hostname) = suffix)
          \<or> (\<not> startswith name ''*.'' \<and> name = lower hostname))"
proof -
  have "(if startswith name ''*.'' then last (split1 CHR ''.'' (lower hostname)) = drop 2 name
          else name = lower hostname) =
        ((\<exists>suffix. name = ''*.'' @ suffix \<and>
               (if CHR ''.'' \<in> set hostname then after_first_dot (lower hostname)
                else lower hostname) = suffix)
          \<or> (\<not> startswith name ''*.'' \<and> name = lower hostname))" for name
  proof (cases "startswith name ''*.''")
    case True
    then obtain suffix where n: "name = ''*.'' @ suffix" unfolding startswith_wildcard ..
    show ?thesis unfolding n by (simp add: last_split1 dot_in_lower startswith_def)
  next
    case False
    then have "\<not> (\<exists>suffix. name = ''*.'' @ suffix)" unfolding startswith_wildcard .
    with False show ?thesis by simp
  qed
  then show ?thesis
    by (simp only: match_hostname_names [OF assms] match_names_iff)
qed

lemma wildcard_examples:
  "match_hostname (certsimple_with_names c k [''*.example.com'']) ''foo.example.com'' = Inr True"
  "match_hostname (certsimple_with_names c k [''*.example.com'']) ''example.com'' = Inr False"
  "match_hostname (certsimple_with_names c k [''*.example.com'']) ''foo.bar.example.com'' = Inr False"
  "match_hostname (certsimple_with_names c k [''*.example.com'']) ''evilexample.com'' = Inr False"
  by (simp_all add: match_hostname_names [OF names_of_certsimple_with_names]
        lower_def lower_char_def startswith_def split1_def)

text \<open>
  Claim C1, as the code has it. A served name \<open>*.suffix\<close> matches a hostname when the
  part of the lower-cased hostname after its first dot is \<open>suffix\<close>; a hostname
  without a dot is compared whole, since \<open>hostname.split(".", 1)[-1]\<close> is then the
  hostname itself. A name that does not start with \<open>*.\<close> matches when it equals the
  lower-cased hostname. For the served name \<open>*.example.com\<close> the hostname
  \<open>foo.example.com\<close> matches, and \<open>example.com\<close>, \<open>foo.bar.example.com\<close> and
  \<open>evilexample.com\<close> do not.
\<close>

theorem match_hostname_wildcard:
  "(names_of ctx = PyStrs names \<longrightarrow>
      match_hostname ctx hostname =
        Inr (\<exists>name \<in> set names.
               (\<exists>suffix. name = ''*.'' @ suffix \<and>
                  (if CHR ''.'' \<in> set hostname then after_first_dot (lower hostname)
                   else lower hostname) = suffix)
             \<or> (\<not> startswith name ''*.'' \<and> name = lower hostname)))
   \<and> match_hostname (certsimple_with_names c k [''*.example.com'']) ''foo.example.com'' = Inr True
   \<and> match_hostname (certsimple_with_names c k [''*.example.com'']) ''example.com'' = Inr False
   \<and> match_hostname (certsimple_with_names c k [''*.example.com'']) ''foo.bar.example.com'' = Inr False
   \<and> match_hostname (certsimple_with_names c k [''*.example.com'']) ''evilexample.com'' = Inr False"
  using match_hostname_iff wildcard_examples by blast

text \<open>The characterisation of C1 at the served name \<open>*.example.com\<close> and the hostname
  \<open>Foo.Example.com\<close>.\<close>

theorem match_hostname_wildcard_witness:
  "names_of (certsimple_with_names ''a.pem'' ''a.key'' [''*.example.com'']) = PyStrs [''*.example.com'']
   \<and> match_hostname (certsimple_with_names ''a.pem'' ''a.key'' [''*.example.com'']) ''Foo.Example.com''
       = Inr True"
proof -
  have h: "names_of (certsimple_with_names ''a.pem'' ''a.key'' [''*.example.com'']) = PyStrs [''*.example.com'']"
    by (rule names_of_certsimple_with_names)
  have "match_hostname (certsimple_with_names ''a.pem'' ''a.key'' [''*.example.com'']) ''Foo.Example.com''
        = Inr (\<exists>name \<in> set [''*.example.com''].
               (\<exists>suffix. name = ''*.'' @ suffix \<and>
                  (if CHR ''.'' \<in> set ''Foo.Example.com'' then after_first_dot (lower ''Foo.Example.com'')
                   else lower ''Foo.Example.com'') = suffix)
             \<or> (\<not> startswith name ''*.'' \<and> name = lower ''Foo.Example.com''))"
    using match_hostname_wildcard [of "certsimple_with_names ''a.pem'' ''a.key'' [''*.example.com'']"
        "[''*.example.com'']" "''Foo.Example.com''"] h by blast
  then show ?thesis using h
    by (simp add: after_first_dot_def lower_def lower_char_def startswith_def)
qed

text \<open>
  Claim C1 as the specification states it asks for a dot in the hostname. The served
  name \<open>*.localhost\<close> matches the hostname \<open>localhost\<close>, which has none.
\<close>

theorem match_hostname_wildcard_counterexample:
  "match_hostname (certsimple_with_names ''a.pem'' ''a.key'' [''*.localhost'']) ''localhost'' = Inr True
   \<and> \<not> (CHR ''.'' \<in> set ''localhost'' \<and> after_first_dot ''localhost'' = ''localhost'')"
  by (simp add: match_hostname_names [OF names_of_certsimple_with_names]
        lower_def lower_char_def startswith_def split1_def)

text \<open>
  Claim C2, as the code has it. When no served name starts with \<open>*.\<close>, the matcher
  returns true exactly when the lower-cased hostname is one of the served names as they
  are stored: the hostname is lower-cased, the served names are not.
\<close>

theorem match_hostname_exact:
  "names_of ctx = PyStrs names \<Longrightarrow> \<forall>name \<in> set names. \<not> startswith name ''*.'' \<Longrightarrow>
   match_hostname ctx hostname = Inr (lower hostname \<in> set names)"
proof -
  assume n: "names_of ctx = PyStrs names" and w: "\<forall>name \<in> set names. \<not> startswith name ''*.''"
  have "match_names names h = (h \<in> set names)" for h
    using w by (induction names) auto
  then show ?thesis by (simp add: match_hostname_names [OF n])
qed

text \<open>C2 at the served names \<open>example.com\<close>, \<open>10.0.0.1\<close> and the hostname
  \<open>EXAMPLE.com\<close>.\<close>

theorem match_hostname_exact_witness:
  "names_of (certsimple_with_names ''a.pem'' ''a.key'' [''example.com'', ''10.0.0.1''])
     = PyStrs [''example.com'', ''10.0.0.1'']
   \<and> \<not> startswith ''example.com'' ''*.'' \<and> \<not> startswith ''10.0.0.1'' ''*.''
   \<and> match_hostname (certsimple_with_names ''a.pem'' ''a.key'' [''example.com'', ''10.0.0.1''])
         ''EXAMPLE.com'' = Inr True"
proof -
  have h: "names_of (certsimple_with_names ''a.pem'' ''a.key'' [''example.com'', ''10.0.0.1''])
             = PyStrs [''example.com'', ''10.0.0.1'']"
    by (rule names_of_certsimple_with_names)
  have w1: "\<not> startswith ''example.com'' ''*.''" and w2: "\<not> startswith ''10.0.0.1'' ''*.''"
    by (simp_all add: startswith_def)
  then have w: "\<forall>name \<in> set [''example.com'', ''10.0.0.1'']. \<not> startswith name ''*.''"
    by simp
  have l: "(lower ''EXAMPLE.com'' \<in> set [''example.com'', ''10.0.0.1'']) = True"
    by (simp add: lower_def lower_char_def)
  show ?thesis using match_hostname_exact [OF h w, of "''EXAMPLE.com''"] h w1 w2 unfolding l by blast
qed

text \<open>
  Claim C2 as the specification states it has the served names case-folded. The served
  name \<open>Example.com\<close> does not match the hostname \<open>example.com\<close>, although the
  lower-cased hostname is among the lower-cased served names.
\<close>

theorem match_hostname_exact_counterexample:
  "match_hostname (certsimple_with_names ''a.pem'' ''a.key'' [''Example.com'']) ''example.com'' = Inr False
   \<and> lower ''example.com'' \<in> set (map lower [''Example.com''])"
  by (simp add: match_hostname_names [OF names_of_certsimple_with_names]
        lower_def lower_char_def startswith_def split1_def)

section \<open>Properties of the selector\<close>

lemma match_certsimple_with_names:
  "match_hostname (certsimple_with_names c k ns) h = Inr (match_names ns (lower h))"
  by (rule match_hostname_names [OF names_of_certsimple_with_names])

lemma find_first_skip:
  "\<forall>c \<in> set pre. match_hostname c sni = Inr False \<Longrightarrow>
   find_first (pre @ rest) sni = find_first rest sni"
  by (induction pre) simp_all

lemma find_first_none:
  "\<forall>c \<in> set ctxs. match_hostname c sni = Inr False \<Longrightarrow> find_first ctxs sni = Inr None"
  using find_first_skip [of ctxs sni "[]"] by simp

lemma find_first_hit:
  assumes "\<forall>c \<in> set pre. match_hostname c sni = Inr False" and "match_hostname ctx sni = Inr True"
  shows "find_first (pre @ ctx # post) sni = Inr (Some ctx)"
  using assms by (simp add: find_first_skip)

text \<open>
  Claim C3, as the code has it. Without a server name, and with the empty string as
  server name, \<open>find_cert\<close> returns the fallback when there is one and raises the
  no-SNI error otherwise. With a server name that is not empty it returns the first
  entry of \<open>sanic_select\<close>, in the order of registration, that matches it; when no
  entry matches it returns the fallback when there is one and raises the
  no-matching-certificate error, which names the server name, otherwise.
\<close>

theorem find_cert_select:
  "find_cert self None =
     (case sanic_fallback self of Some fb \<Rightarrow> Inr fb | None \<Rightarrow> Inl ValueError_no_sni)
   \<and> find_cert self (Some '''') =
     (case sanic_fallback self of Some fb \<Rightarrow> Inr fb | None \<Rightarrow> Inl ValueError_no_sni)
   \<and> (sni \<noteq> [] \<and> sanic_select self = pre @ ctx # post
        \<and> (\<forall>c \<in> set pre. match_hostname c sni = Inr False)
        \<and> match_hostname ctx sni = Inr True
      \<longrightarrow> find_cert self (Some sni) = Inr ctx)
   \<and> (sni' \<noteq> [] \<and> (\<forall>c \<in> set (sanic_select self). match_hostname c sni' = Inr False)
      \<longrightarrow> find_cert self (Some sni') =
            (case sanic_fallback self of
               Some fb \<Rightarrow> Inr fb
             | None \<Rightarrow> Inl (ValueError_no_match (Some sni'))))"
  by (simp add: find_first_hit find_first_none)

text \<open>C3 on a selector with two entries and no fallback: no server name, the empty
  server name, a server name that the second entry serves and one that none serves.\<close>

theorem find_cert_select_witness:
  "find_cert \<lparr>sanic_select = [certsimple_with_names ''a.pem'' ''a.key'' [''x.com''],
                               certsimple_with_names ''b.pem'' ''b.key'' [''y.com'']],
              sanic_fallback = None\<rparr> None = Inl ValueError_no_sni
   \<and> find_cert \<lparr>sanic_select = [certsimple_with_names ''a.pem'' ''a.key'' [''x.com''],
                               certsimple_with_names ''b.pem'' ''b.key'' [''y.com'']],
              sanic_fallback = None\<rparr> (Some '''') = Inl ValueError_no_sni
   \<and> find_cert \<lparr>sanic_select = [certsimple_with_names ''a.pem'' ''a.key'' [''x.com''],
                               certsimple_with_names ''b.pem'' ''b.key'' [''y.com'']],
              sanic_fallback = None\<rparr> (Some ''y.com'')
       = Inr (certsimple_with_names ''b.pem'' ''b.key'' [''y.com''])
   \<and> find_cert \<lparr>sanic_select = [certsimple_with_names ''a.pem'' ''a.key'' [''x.com''],
                               certsimple_with_names ''b.pem'' ''b.key'' [''y.com'']],
              sanic_fallback = None\<rparr> (Some ''z.com'')
       = Inl (ValueError_no_match (Some ''z.com''))"
  using find_cert_select [of
      "\<lparr>sanic_select = [certsimple_with_names ''a.pem'' ''a.key'' [''x.com''],
                         certsimple_with_names ''b.pem'' ''b.key'' [''y.com'']],
        sanic_fallback = None\<rparr>"
      "''y.com''" "[certsimple_with_names ''a.pem'' ''a.key'' [''x.com'']]"
      "certsimple_with_names ''b.pem'' ''b.key'' [''y.com'']" "[]" "''z.com''"]
  by (simp add: match_certsimple_with_names lower_def lower_char_def startswith_def)

text \<open>
  Claim C3 as the specification states it has every server name that is present looked
  up among the entries. The empty server name is present and is not looked up: an entry
  that serves it and matches it is not returned, and without a fallback the error is the
  no-SNI error, not the one that names the server name.
\<close>

theorem find_cert_select_counterexample:
  "match_hostname (certsimple_with_names ''a.pem'' ''a.key'' ['''']) '''' = Inr True
   \<and> find_cert \<lparr>sanic_select = [certsimple_with_names ''a.pem'' ''a.key'' ['''']],
                sanic_fallback = None\<rparr> (Some '''') = Inl ValueError_no_sni
   \<and> find_cert \<lparr>sanic_select = [certsimple_with_names ''a.pem'' ''a.key'' ['''']],
                sanic_fallback = None\<rparr> (Some '''')
       \<noteq> Inr (certsimple_with_names ''a.pem'' ''a.key'' [''''])
   \<and> find_cert \<lparr>sanic_select = [certsimple_with_names ''b.pem'' ''b.key'' [''y.com'']],
                sanic_fallback = None\<rparr> (Some '''')
       \<noteq> Inl (ValueError_no_match (Some ''''))"
  by (simp add: match_certsimple_with_names lower_def startswith_def)

lemma py_iter_served_names:
  "py_iter (names_of c) =
     (if names_of c = PyNone then Inl TypeError_not_iterable else Inr (served_names c))"
  by (cases "names_of c") (simp_all add: served_names_def)

lemma survivors_simps:
  "survivors [] = []"
  "survivors (None # ctxs) = survivors ctxs"
  "survivors (Some c # ctxs) = c # survivors ctxs"
  by (simp_all add: survivors_def)

lemma map_Some_survivors: "map Some (survivors ctxs) = filter (\<lambda>c. c \<noteq> None) ctxs"
proof (induction ctxs)
  case Nil
  show ?case by (simp add: survivors_simps)
next
  case (Cons a ctxs)
  then show ?case by (cases a) (simp_all add: survivors_simps)
qed

lemma init_loop_eq:
  "init_loop i ctxs (all_names, select, fallback) =
     (if \<exists>c \<in> set (survivors ctxs). names_of c = PyNone then Inl TypeError_not_iterable
      else Inr (all_names @ concat (map served_names (survivors ctxs)),
                select @ survivors ctxs,
                if i = 0 then (case ctxs of [] \<Rightarrow> fallback | None # _ \<Rightarrow> fallback | Some c # _ \<Rightarrow> Some c)
                else fallback))"
proof (induction ctxs arbitrary: i all_names select fallback)
  case Nil
  show ?case by (simp add: survivors_simps)
next
  case (Cons a ctxs)
  show ?case
  proof (cases a)
    case None
    then show ?thesis by (simp add: Cons.IH survivors_simps)
  next
    case (Some c)
    then show ?thesis by (simp add: Cons.IH survivors_simps py_iter_served_names)
  qed
qed

lemma CertSelector_init_eq:
  "CertSelector_init ctxs =
     (if \<exists>c \<in> set (survivors ctxs). names_of c = PyNone then Inl TypeError_not_iterable
      else if concat (map served_names (survivors ctxs)) = [] then Inl ValueError_no_names
      else Inr \<lparr>sanic_select = survivors ctxs,
                sanic_fallback = (case ctxs of [] \<Rightarrow> None | c # _ \<Rightarrow> c)\<rparr>)"
proof -
  have "(case ctxs of [] \<Rightarrow> None | None # _ \<Rightarrow> None | Some c # _ \<Rightarrow> Some c)
        = (case ctxs of [] \<Rightarrow> None | c # _ \<Rightarrow> c)"
    by (simp split: list.split option.split)
  then show ?thesis
    by (simp add: CertSelector_init_def init_loop_eq del: concat_eq_Nil_conv)
qed

lemma served_names_PyStrs: "names_of c = PyStrs ns \<Longrightarrow> served_names c = ns"
  by (simp add: served_names_def)

lemma CertSelector_init_two:
  assumes a: "names_of A = PyStrs [''x.com'']" and b: "names_of B = PyStrs [''y.com'']"
  shows "CertSelector_init [Some A, Some B] = Inr \<lparr>sanic_select = [A, B], sanic_fallback = Some A\<rparr>"
  by (simp add: CertSelector_init_eq survivors_simps a b served_names_PyStrs)

lemma x_y_z:
  "match_names [''x.com''] (lower ''x.com'') = True"
  "match_names [''x.com''] (lower ''y.com'') = False"
  "match_names [''y.com''] (lower ''y.com'') = True"
  "match_names [''x.com''] (lower ''z.com'') = False"
  "match_names [''y.com''] (lower ''z.com'') = False"
  by (simp_all add: lower_def lower_char_def startswith_def)

text \<open>
  Claim C4. A selector that is constructed holds the entries that are not \<open>None\<close> in
  their order, and its fallback is the entry at index 0 of the list supplied when that
  entry is not \<open>None\<close>, and \<open>None\<close> otherwise. With the entries A for \<open>x.com\<close> and B
  for \<open>y.com\<close>, the selector returns A for \<open>x.com\<close>, B for \<open>y.com\<close>, A for
  \<open>z.com\<close> and A without a server name.
\<close>

theorem CertSelector_init_fallback:
  "(CertSelector_init ctxs = Inr sel \<longrightarrow>
      map Some (sanic_select sel) = filter (\<lambda>c. c \<noteq> None) ctxs
      \<and> sanic_fallback sel = (case ctxs of [] \<Rightarrow> None | c # _ \<Rightarrow> c))
   \<and> (names_of A = PyStrs [''x.com''] \<and> names_of B = PyStrs [''y.com''] \<longrightarrow>
        (\<exists>s. CertSelector_init [Some A, Some B] = Inr s
           \<and> find_cert s (Some ''x.com'') = Inr A
           \<and> find_cert s (Some ''y.com'') = Inr B
           \<and> find_cert s (Some ''z.com'') = Inr A
           \<and> find_cert s None = Inr A))"
proof (intro conjI impI)
  assume "CertSelector_init ctxs = Inr sel"
  then have sel: "sel = \<lparr>sanic_select = survivors ctxs,
                        sanic_fallback = (case ctxs of [] \<Rightarrow> None | c # _ \<Rightarrow> c)\<rparr>"
    unfolding CertSelector_init_eq by (simp split: if_splits)
  show "map Some (sanic_select sel) = filter (\<lambda>c. c \<noteq> None) ctxs"
    unfolding sel by (simp add: map_Some_survivors)
  show "sanic_fallback sel = (case ctxs of [] \<Rightarrow> None | c # _ \<Rightarrow> c)"
    unfolding sel by simp
next
  assume ab: "names_of A = PyStrs [''x.com''] \<and> names_of B = PyStrs [''y.com'']"
  then have a: "names_of A = PyStrs [''x.com'']" and b: "names_of B = PyStrs [''y.com'']"
    by simp_all
  have m: "match_hostname A ''x.com'' = Inr True" "match_hostname A ''y.com'' = Inr False"
    "match_hostname B ''y.com'' = Inr True" "match_hostname A ''z.com'' = Inr False"
    "match_hostname B ''z.com'' = Inr False"
    by (simp_all only: match_hostname_names [OF a] match_hostname_names [OF b] x_y_z)
  have "find_cert \<lparr>sanic_select = [A, B], sanic_fallback = Some A\<rparr> (Some ''x.com'') = Inr A"
       "find_cert \<lparr>sanic_select = [A, B], sanic_fallback = Some A\<rparr> (Some ''y.com'') = Inr B"
       "find_cert \<lparr>sanic_select = [A, B], sanic_fallback = Some A\<rparr> (Some ''z.com'') = Inr A"
       "find_cert \<lparr>sanic_select = [A, B], sanic_fallback = Some A\<rparr> None = Inr A"
    by (simp_all add: m)
  with CertSelector_init_two [OF a b]
  show "\<exists>s. CertSelector_init [Some A, Some B] = Inr s
           \<and> find_cert s (Some ''x.com'') = Inr A
           \<and> find_cert s (Some ''y.com'') = Inr B
           \<and> find_cert s (Some ''z.com'') = Inr A
           \<and> find_cert s None = Inr A"
    by blast
qed

text \<open>C4 on a list whose first entry is \<open>None\<close>, where no fallback is set, and on
  the two entries of the example.\<close>

theorem CertSelector_init_fallback_witness:
  "CertSelector_init [None, Some (certsimple_with_names ''b.pem'' ''b.key'' [''y.com''])]
     = Inr \<lparr>sanic_select = [certsimple_with_names ''b.pem'' ''b.key'' [''y.com'']],
            sanic_fallback = None\<rparr>
   \<and> map Some (sanic_select \<lparr>sanic_select = [certsimple_with_names ''b.pem'' ''b.key'' [''y.com'']],
                              sanic_fallback = None\<rparr>)
       = filter (\<lambda>c. c \<noteq> None) [None, Some (certsimple_with_names ''b.pem'' ''b.key'' [''y.com''])]
   \<and> sanic_fallback \<lparr>sanic_select = [certsimple_with_names ''b.pem'' ''b.key'' [''y.com'']],
                     sanic_fallback = None\<rparr>
       = (case [None, Some (certsimple_with_names ''b.pem'' ''b.key'' [''y.com''])] of
            [] \<Rightarrow> None | c # _ \<Rightarrow> c)
   \<and> names_of (certsimple_with_names ''a.pem'' ''a.key'' [''x.com'']) = PyStrs [''x.com'']
   \<and> names_of (certsimple_with_names ''b.pem'' ''b.key'' [''y.com'']) = PyStrs [''y.com'']
   \<and> (\<exists>s. CertSelector_init [Some (certsimple_with_names ''a.pem'' ''a.key'' [''x.com'']),
                              Some (certsimple_with_names ''b.pem'' ''b.key'' [''y.com''])] = Inr s
         \<and> find_cert s (Some ''x.com'') = Inr (certsimple_with_names ''a.pem'' ''a.key'' [''x.com''])
         \<and> find_cert s (Some ''y.com'') = Inr (certsimple_with_names ''b.pem'' ''b.key'' [''y.com''])
         \<and> find_cert s (Some ''z.com'') = Inr (certsimple_with_names ''a.pem'' ''a.key'' [''x.com''])
         \<and> find_cert s None = Inr (certsimple_with_names ''a.pem'' ''a.key'' [''x.com'']))"
proof -
  have i: "CertSelector_init [None, Some (certsimple_with_names ''b.pem'' ''b.key'' [''y.com''])]
     = Inr \<lparr>sanic_select = [certsimple_with_names ''b.pem'' ''b.key'' [''y.com'']],
            sanic_fallback = None\<rparr>"
    by (simp add: CertSelector_init_def names_of_certsimple_with_names)
  have a: "names_of (certsimple_with_names ''a.pem'' ''a.key'' [''x.com'']) = PyStrs [''x.com'']"
    and b: "names_of (certsimple_with_names ''b.pem'' ''b.key'' [''y.com'']) = PyStrs [''y.com'']"
    by (rule names_of_certsimple_with_names)+
  show ?thesis
    using CertSelector_init_fallback
      [of "[None, Some (certsimple_with_names ''b.pem'' ''b.key'' [''y.com''])]"
          "\<lparr>sanic_select = [certsimple_with_names ''b.pem'' ''b.key'' [''y.com'']],
            sanic_fallback = None\<rparr>"
          "certsimple_with_names ''a.pem'' ''a.key'' [''x.com'']"
          "certsimple_with_names ''b.pem'' ''b.key'' [''y.com'']"] i a b
    by blast
qed





section \<open>Properties of the SNI callbacks\<close>

lemma selector_sni_callback_found:
  "find_cert ctx server_name = Inr found \<Longrightarrow>
   selector_sni_callback sslobj server_name ctx =
     (sslobj\<lparr>sanic_server_name := Some server_name, context := Context found\<rparr>, Inr None)"
  by (simp add: selector_sni_callback_def server_name_callback_def)

lemma selector_sni_callback_rejected:
  "find_cert ctx server_name = Inl e \<Longrightarrow> is_ValueError e \<Longrightarrow>
   selector_sni_callback sslobj server_name ctx =
     (sslobj\<lparr>sanic_server_name := Some server_name\<rparr>,
      Inr (Some ALERT_DESCRIPTION_UNRECOGNIZED_NAME))"
  by (simp add: selector_sni_callback_def server_name_callback_def)

lemma selector_sni_callback_raised:
  "find_cert ctx server_name = Inl e \<Longrightarrow> \<not> is_ValueError e \<Longrightarrow>
   selector_sni_callback sslobj server_name ctx =
     (sslobj\<lparr>sanic_server_name := Some server_name\<rparr>, Inl e)"
  by (simp add: selector_sni_callback_def server_name_callback_def)

lemma selector_sni_callback_cases:
  obtains (found) found where "find_cert ctx server_name = Inr found"
  | (rejected) e where "find_cert ctx server_name = Inl e" "is_ValueError e"
  | (raised) e where "find_cert ctx server_name = Inl e" "\<not> is_ValueError e"
  by (cases "find_cert ctx server_name") auto

text \<open>
  Claim C6. Whatever \<open>find_cert\<close> does, the object that \<open>selector_sni_callback\<close>
  leaves holds the server name it received (\<open>None\<close> when the client sent none) in
  \<open>sanic_server_name\<close>: when a certificate is found (by a match or as the fallback)
  and installed, when the connection is rejected with the alert, and when an exception
  that is not a \<open>ValueError\<close> leaves the callback. The write stands in the last case
  because it is made before the lookup. \<open>server_name_callback\<close> alone records it too.
\<close>

theorem sni_recorded:
  "sanic_server_name (fst (selector_sni_callback sslobj server_name ctx)) = Some server_name
   \<and> sanic_server_name (server_name_callback sslobj server_name) = Some server_name
   \<and> (find_cert ctx server_name = Inr found \<longrightarrow>
        selector_sni_callback sslobj server_name ctx =
          (sslobj\<lparr>sanic_server_name := Some server_name, context := Context found\<rparr>, Inr None))
   \<and> (find_cert ctx server_name = Inl e \<and> is_ValueError e \<longrightarrow>
        selector_sni_callback sslobj server_name ctx =
          (sslobj\<lparr>sanic_server_name := Some server_name\<rparr>,
           Inr (Some ALERT_DESCRIPTION_UNRECOGNIZED_NAME)))
   \<and> (find_cert ctx server_name = Inl e \<and> \<not> is_ValueError e \<longrightarrow>
        selector_sni_callback sslobj server_name ctx =
          (sslobj\<lparr>sanic_server_name := Some server_name\<rparr>, Inl e))"
proof -
  have "sanic_server_name (fst (selector_sni_callback sslobj server_name ctx)) = Some server_name"
  proof (cases rule: selector_sni_callback_cases [of ctx server_name])
    case (found c)
    then show ?thesis by (simp add: selector_sni_callback_found)
  next
    case (rejected e)
    then show ?thesis by (simp add: selector_sni_callback_rejected)
  next
    case (raised e)
    then show ?thesis by (simp add: selector_sni_callback_raised)
  qed
  moreover have "sanic_server_name (server_name_callback sslobj server_name) = Some server_name"
    by (simp add: server_name_callback_def)
  ultimately show ?thesis
    by (simp add: selector_sni_callback_found selector_sni_callback_rejected
          selector_sni_callback_raised)
qed

lemma find_cert_examples:
  "find_cert \<lparr>sanic_select = [certsimple_with_names ''a.pem'' ''a.key'' [''x.com''],
                               certsimple_with_names ''b.pem'' ''b.key'' [''y.com'']],
              sanic_fallback = Some (certsimple_with_names ''a.pem'' ''a.key'' [''x.com''])\<rparr>
     (Some ''y.com'') = Inr (certsimple_with_names ''b.pem'' ''b.key'' [''y.com''])"
  "find_cert \<lparr>sanic_select = [certsimple_with_names ''a.pem'' ''a.key'' [''x.com''],
                               certsimple_with_names ''b.pem'' ''b.key'' [''y.com'']],
              sanic_fallback = Some (certsimple_with_names ''a.pem'' ''a.key'' [''x.com''])\<rparr>
     (Some ''z.com'') = Inr (certsimple_with_names ''a.pem'' ''a.key'' [''x.com''])"
  "find_cert \<lparr>sanic_select = [certsimple_with_names ''b.pem'' ''b.key'' [''y.com'']],
              sanic_fallback = None\<rparr>
     (Some ''z.com'') = Inl (ValueError_no_match (Some ''z.com''))"
  by (simp_all add: match_certsimple_with_names lower_def lower_char_def startswith_def)

lemma find_cert_not_iterable:
  "find_cert \<lparr>sanic_select = [(certsimple_with_names ''a.pem'' ''a.key'' [])
                                 \<lparr>sanic := Some [''names'' \<mapsto> PyNone]\<rparr>],
              sanic_fallback = None\<rparr>
     (Some ''z.com'') = Inl TypeError_not_iterable"
  by (simp add: match_hostname_def names_of_def dict_get_def)

text \<open>C6 on a match, on the fallback, on a rejection and on a selector whose entry has
  \<open>names\<close> set to \<open>None\<close>, where the lookup raises a \<open>TypeError\<close>.\<close>

theorem sni_recorded_witness:
  "selector_sni_callback
     \<lparr>sanic_server_name = None,
      context = Selector
        \<lparr>sanic_select = [certsimple_with_names ''a.pem'' ''a.key'' [''x.com''],
                         certsimple_with_names ''b.pem'' ''b.key'' [''y.com'']],
         sanic_fallback = Some (certsimple_with_names ''a.pem'' ''a.key'' [''x.com''])\<rparr>\<rparr>
     (Some ''y.com'')
     \<lparr>sanic_select = [certsimple_with_names ''a.pem'' ''a.key'' [''x.com''],
                      certsimple_with_names ''b.pem'' ''b.key'' [''y.com'']],
      sanic_fallback = Some (certsimple_with_names ''a.pem'' ''a.key'' [''x.com''])\<rparr>
   = (\<lparr>sanic_server_name = Some (Some ''y.com''),
       context = Context (certsimple_with_names ''b.pem'' ''b.key'' [''y.com''])\<rparr>, Inr None)
   \<and> selector_sni_callback
     \<lparr>sanic_server_name = None,
      context = Selector
        \<lparr>sanic_select = [certsimple_with_names ''a.pem'' ''a.key'' [''x.com''],
                         certsimple_with_names ''b.pem'' ''b.key'' [''y.com'']],
         sanic_fallback = Some (certsimple_with_names ''a.pem'' ''a.key'' [''x.com''])\<rparr>\<rparr>
     (Some ''z.com'')
     \<lparr>sanic_select = [certsimple_with_names ''a.pem'' ''a.key'' [''x.com''],
                      certsimple_with_names ''b.pem'' ''b.key'' [''y.com'']],
      sanic_fallback = Some (certsimple_with_names ''a.pem'' ''a.key'' [''x.com''])\<rparr>
   = (\<lparr>sanic_server_name = Some (Some ''z.com''),
       context = Context (certsimple_with_names ''a.pem'' ''a.key'' [''x.com''])\<rparr>, Inr None)
   \<and> selector_sni_callback
     \<lparr>sanic_server_name = None,
      context = Selector
        \<lparr>sanic_select = [certsimple_with_names ''b.pem'' ''b.key'' [''y.com'']],
         sanic_fallback = None\<rparr>\<rparr>
     (Some ''z.com'')
     \<lparr>sanic_select = [certsimple_with_names ''b.pem'' ''b.key'' [''y.com'']],
      sanic_fallback = None\<rparr>
   = (\<lparr>sanic_server_name = Some (Some ''z.com''),
       context = Selector
        \<lparr>sanic_select = [certsimple_with_names ''b.pem'' ''b.key'' [''y.com'']],
         sanic_fallback = None\<rparr>\<rparr>, Inr (Some 112))
   \<and> selector_sni_callback
     \<lparr>sanic_server_name = None,
      context = Selector
        \<lparr>sanic_select = [(certsimple_with_names ''a.pem'' ''a.key'' [])
                           \<lparr>sanic := Some [''names'' \<mapsto> PyNone]\<rparr>],
         sanic_fallback = None\<rparr>\<rparr>
     (Some ''z.com'')
     \<lparr>sanic_select = [(certsimple_with_names ''a.pem'' ''a.key'' [])
                        \<lparr>sanic := Some [''names'' \<mapsto> PyNone]\<rparr>],
      sanic_fallback = None\<rparr>
   = (\<lparr>sanic_server_name = Some (Some ''z.com''),
       context = Selector
        \<lparr>sanic_select = [(certsimple_with_names ''a.pem'' ''a.key'' [])
                           \<lparr>sanic := Some [''names'' \<mapsto> PyNone]\<rparr>],
         sanic_fallback = None\<rparr>\<rparr>, Inl TypeError_not_iterable)"
proof -
  let ?A = "certsimple_with_names ''a.pem'' ''a.key'' [''x.com'']"
  let ?B = "certsimple_with_names ''b.pem'' ''b.key'' [''y.com'']"
  let ?N = "(certsimple_with_names ''a.pem'' ''a.key'' []) \<lparr>sanic := Some [''names'' \<mapsto> PyNone]\<rparr>"
  let ?with_fallback = "\<lparr>sanic_select = [?A, ?B], sanic_fallback = Some ?A\<rparr>"
  let ?no_fallback = "\<lparr>sanic_select = [?B], sanic_fallback = None\<rparr>"
  let ?not_iterable = "\<lparr>sanic_select = [?N], sanic_fallback = None\<rparr>"
  note matched =
    sni_recorded [of "\<lparr>sanic_server_name = None, context = Selector ?with_fallback\<rparr>"
      "Some ''y.com''" ?with_fallback ?B "ValueError_no_sni",
      THEN conjunct2, THEN conjunct2, THEN conjunct1, THEN mp, OF find_cert_examples(1)]
  note fallback =
    sni_recorded [of "\<lparr>sanic_server_name = None, context = Selector ?with_fallback\<rparr>"
      "Some ''z.com''" ?with_fallback ?A "ValueError_no_sni",
      THEN conjunct2, THEN conjunct2, THEN conjunct1, THEN mp, OF find_cert_examples(2)]
  have v: "find_cert ?no_fallback (Some ''z.com'') = Inl (ValueError_no_match (Some ''z.com''))
           \<and> is_ValueError (ValueError_no_match (Some ''z.com''))"
    using find_cert_examples(3) by simp
  note rejected =
    sni_recorded [of "\<lparr>sanic_server_name = None, context = Selector ?no_fallback\<rparr>"
      "Some ''z.com''" ?no_fallback ?A "ValueError_no_match (Some ''z.com'')",
      THEN conjunct2, THEN conjunct2, THEN conjunct2, THEN conjunct1, THEN mp, OF v]
  have t: "find_cert ?not_iterable (Some ''z.com'') = Inl TypeError_not_iterable
           \<and> \<not> is_ValueError TypeError_not_iterable"
    using find_cert_not_iterable by simp
  note raised =
    sni_recorded [of "\<lparr>sanic_server_name = None, context = Selector ?not_iterable\<rparr>"
      "Some ''z.com''" ?not_iterable ?A "TypeError_not_iterable",
      THEN conjunct2, THEN conjunct2, THEN conjunct2, THEN conjunct2, THEN mp, OF t]
  from matched fallback rejected raised show ?thesis
    by (simp add: ALERT_DESCRIPTION_UNRECOGNIZED_NAME_def)
qed

text \<open>
  Claim C8. \<open>find_cert\<close> reads its selector and the server name and nothing else, and
  changes neither: two calls with the same selector and server name give the same
  result, and the outcome of the callback (the context installed, the alert, the
  exception) does not depend on the handshake object it is called on.
\<close>

theorem find_cert_deterministic:
  "snd (selector_sni_callback sslobj1 sni sel) = snd (selector_sni_callback sslobj2 sni sel)
   \<and> (find_cert sel sni = Inr c \<longrightarrow>
        context (fst (selector_sni_callback sslobj1 sni sel)) = Context c
        \<and> context (fst (selector_sni_callback sslobj2 sni sel)) = Context c)
   \<and> (find_cert sel sni = r1 \<and> find_cert sel sni = r2 \<longrightarrow> r1 = r2)"
proof -
  have "snd (selector_sni_callback sslobj1 sni sel) = snd (selector_sni_callback sslobj2 sni sel)"
  proof (cases rule: selector_sni_callback_cases [of sel sni])
    case (found c)
    then show ?thesis by (simp add: selector_sni_callback_found)
  next
    case (rejected e)
    then show ?thesis by (simp add: selector_sni_callback_rejected)
  next
    case (raised e)
    then show ?thesis by (simp add: selector_sni_callback_raised)
  qed
  then show ?thesis by (auto simp: selector_sni_callback_found)
qed

text \<open>C8 on two handshake objects in different states and a server name that is
  rejected.\<close>

theorem find_cert_deterministic_witness:
  "snd (selector_sni_callback
          \<lparr>sanic_server_name = None,
           context = Selector \<lparr>sanic_select = [certsimple_with_names ''b.pem'' ''b.key'' [''y.com'']],
                               sanic_fallback = None\<rparr>\<rparr>
          (Some ''z.com'')
          \<lparr>sanic_select = [certsimple_with_names ''b.pem'' ''b.key'' [''y.com'']],
           sanic_fallback = None\<rparr>)
   = snd (selector_sni_callback
          \<lparr>sanic_server_name = Some (Some ''y.com''),
           context = Context (certsimple_with_names ''b.pem'' ''b.key'' [''y.com''])\<rparr>
          (Some ''z.com'')
          \<lparr>sanic_select = [certsimple_with_names ''b.pem'' ''b.key'' [''y.com'']],
           sanic_fallback = None\<rparr>)
   \<and> find_cert \<lparr>sanic_select = [certsimple_with_names ''b.pem'' ''b.key'' [''y.com'']],
                sanic_fallback = None\<rparr> (Some ''z.com'')
       = Inl (ValueError_no_match (Some ''z.com''))"
  using find_cert_deterministic [of
      "\<lparr>sanic_server_name = None,
           context = Selector \<lparr>sanic_select = [certsimple_with_names ''b.pem'' ''b.key'' [''y.com'']],
                               sanic_fallback = None\<rparr>\<rparr>"
      "Some ''z.com''"
      "\<lparr>sanic_select = [certsimple_with_names ''b.pem'' ''b.key'' [''y.com'']],
           sanic_fallback = None\<rparr>"
      "\<lparr>sanic_server_name = Some (Some ''y.com''),
           context = Context (certsimple_with_names ''b.pem'' ''b.key'' [''y.com''])\<rparr>"
      "certsimple_with_names ''b.pem'' ''b.key'' [''y.com'']"
      "find_cert \<lparr>sanic_select = [certsimple_with_names ''b.pem'' ''b.key'' [''y.com'']],
                sanic_fallback = None\<rparr> (Some ''z.com'')"
      "Inl (ValueError_no_match (Some ''z.com''))"]
    find_cert_examples(3)
  by blast

text \<open>
  Claim C9. The empty server name is treated as no server name: \<open>find_cert\<close> returns
  the fallback when there is one and raises the no-SNI error otherwise, whatever the
  entries are, also when an entry serves the empty name and would match it.
\<close>

theorem find_cert_empty_sni:
  "find_cert self (Some '''') = find_cert self None
   \<and> find_cert self (Some '''') =
       (case sanic_fallback self of Some fb \<Rightarrow> Inr fb | None \<Rightarrow> Inl ValueError_no_sni)
   \<and> find_cert (self\<lparr>sanic_select := entries\<rparr>) (Some '''') = find_cert self (Some '''')
   \<and> match_hostname (certsimple_with_names c k ['''']) '''' = Inr True
   \<and> find_cert \<lparr>sanic_select = [certsimple_with_names c k ['''']], sanic_fallback = None\<rparr>
        (Some '''') = Inl ValueError_no_sni"
  by (simp add: match_certsimple_with_names lower_def startswith_def)

text \<open>C9 on a selector whose only entry serves the empty name, with and without a
  fallback.\<close>

theorem find_cert_empty_sni_witness:
  "find_cert \<lparr>sanic_select = [certsimple_with_names ''a.pem'' ''a.key'' ['''']],
              sanic_fallback = Some (certsimple_with_names ''b.pem'' ''b.key'' [''y.com''])\<rparr>
     (Some '''') = Inr (certsimple_with_names ''b.pem'' ''b.key'' [''y.com''])
   \<and> match_hostname (certsimple_with_names ''a.pem'' ''a.key'' ['''']) '''' = Inr True
   \<and> find_cert \<lparr>sanic_select = [certsimple_with_names ''a.pem'' ''a.key'' ['''']],
                sanic_fallback = None\<rparr> (Some '''') = Inl ValueError_no_sni"
  using find_cert_empty_sni [of
      "\<lparr>sanic_select = [certsimple_with_names ''a.pem'' ''a.key'' ['''']],
        sanic_fallback = Some (certsimple_with_names ''b.pem'' ''b.key'' [''y.com''])\<rparr>"
      "[]" "''a.pem''" "''a.key''"]
  by simp

section \<open>Properties of CertSimple\<close>

lemma CertSimple_new_names:
  assumes "kw ''names'' = Some names"
  shows "CertSimple_new pf cert key kw =
     (let certfile = py_or (dict_get kw ''certificate'' PyNone) cert;
          keyfile = py_or (dict_get kw ''keyfile'' PyNone) key
      in if \<not> truthy certfile \<or> \<not> truthy keyfile then Inl ValueError_ssl_dict
         else
           (case create_context pf certfile keyfile (dict_get kw ''password'' PyNone) of
              Inl e \<Rightarrow> Inl e
            | Inr self \<Rightarrow> Inr (self\<lparr>sanic := Some (resolved_kw kw certfile keyfile)\<rparr>)))"
  using assms
  by (simp add: CertSimple_new_def dict_pop_def dict_get_def Let_def resolved_kw_def
        cong: sum.case_cong)

lemma create_context_decoder:
  "create_context (pf\<lparr>test_decode_cert := decode\<rparr>) certfile keyfile password
   = create_context pf certfile keyfile password"
  by (simp add: create_context_def Let_def)

lemma CertSimple_new_decoder:
  assumes "kw ''names'' = Some names"
  shows "CertSimple_new (pf\<lparr>test_decode_cert := decode\<rparr>) cert key kw = CertSimple_new pf cert key kw"
  by (simp only: CertSimple_new_names [of kw names, OF assms] create_context_decoder)

lemma CertSimple_decoder:
  assumes "ctxdef ''names'' = Some names"
  shows "CertSimple (pf\<lparr>test_decode_cert := decode\<rparr>) ctxdef = CertSimple pf ctxdef"
proof -
  have "(ctxdef(''cert'' := None, ''key'' := None)) ''names'' = Some names"
    using assms by simp
  then show ?thesis
    by (simp only: CertSimple_def CertSimple_new_decoder)
qed

lemma CertSimple_Inr:
  assumes "CertSimple pf ctxdef = Inr self"
  obtains cert key where "ctxdef ''cert'' = Some cert" "ctxdef ''key'' = Some key"
    "CertSimple_new pf cert key (ctxdef(''cert'' := None, ''key'' := None)) = Inr self"
  using assms
  by (auto simp: CertSimple_def split: if_splits option.splits sum.splits)

lemma CertSimple_new_names_Inr:
  assumes n: "kw ''names'' = Some names" and r: "CertSimple_new pf cert key kw = Inr self"
  shows "sanic self =
     Some (resolved_kw kw (py_or (dict_get kw ''certificate'' PyNone) cert)
                          (py_or (dict_get kw ''keyfile'' PyNone) key))"
  using r unfolding CertSimple_new_names [of kw names, OF n]
  by (auto simp: Let_def split: if_splits sum.splits)

lemma resolved_kw_lookup:
  "resolved_kw kw certfile keyfile ''cert'' = Some certfile"
  "resolved_kw kw certfile keyfile ''key'' = Some keyfile"
  "resolved_kw kw certfile keyfile ''names'' = kw ''names''"
  by (simp_all add: resolved_kw_def)

lemma resolved_kw_only:
  "resolved_kw kw certfile keyfile k = Some v \<Longrightarrow> k = ''cert'' \<or> k = ''key'' \<or> kw k = Some v"
  by (auto simp: resolved_kw_def split: if_splits)

text \<open>
  Claim C10. When the mapping has a \<open>names\<close> key, \<open>CertSimple\<close> does not depend on
  what decoding the certificate would give, so the certificate is not decoded; and when
  it returns an identity, the served names of the identity are the value supplied, its
  \<open>cert\<close> and \<open>key\<close> attributes are the resolved file names, and every other
  attribute is an entry of the mapping, so that no field of the certificate's subject
  is among them.
\<close>

theorem CertSimple_explicit_names:
  "ctxdef ''names'' = Some names \<longrightarrow>
     CertSimple (pf\<lparr>test_decode_cert := decode\<rparr>) ctxdef = CertSimple pf ctxdef
     \<and> (CertSimple pf ctxdef = Inr self \<longrightarrow>
          names_of self = names
          \<and> (\<exists>d. sanic self = Some d
               \<and> d ''names'' = Some names
               \<and> (\<forall>k v. d k = Some v \<longrightarrow> k = ''cert'' \<or> k = ''key'' \<or> ctxdef k = Some v)
               \<and> (\<exists>cert key. ctxdef ''cert'' = Some cert \<and> ctxdef ''key'' = Some key
                     \<and> d ''cert'' = Some (py_or (dict_get ctxdef ''certificate'' PyNone) cert)
                     \<and> d ''key'' = Some (py_or (dict_get ctxdef ''keyfile'' PyNone) key))))"
proof (intro impI conjI)
  assume n: "ctxdef ''names'' = Some names"
  show "CertSimple (pf\<lparr>test_decode_cert := decode\<rparr>) ctxdef = CertSimple pf ctxdef"
    by (rule CertSimple_decoder [of ctxdef names, OF n])
  assume r: "CertSimple pf ctxdef = Inr self"
  let ?kw = "ctxdef(''cert'' := None, ''key'' := None)"
  from r obtain cert key where c: "ctxdef ''cert'' = Some cert" and k: "ctxdef ''key'' = Some key"
    and new: "CertSimple_new pf cert key ?kw = Inr self"
    by (rule CertSimple_Inr)
  have n': "?kw ''names'' = Some names" using n by simp
  let ?certfile = "py_or (dict_get ctxdef ''certificate'' PyNone) cert"
  let ?keyfile = "py_or (dict_get ctxdef ''keyfile'' PyNone) key"
  let ?d = "resolved_kw ?kw ?certfile ?keyfile"
  have d: "sanic self = Some ?d"
    using CertSimple_new_names_Inr [of ?kw names, OF n' new] by (simp add: dict_get_def)
  have dn: "?d ''names'' = Some names" by (simp add: resolved_kw_lookup n)
  show "names_of self = names" by (simp add: names_of_def d dict_get_def resolved_kw_lookup n)
  have only: "\<forall>k v. ?d k = Some v \<longrightarrow> k = ''cert'' \<or> k = ''key'' \<or> ctxdef k = Some v"
  proof (intro allI impI)
    fix k v assume "?d k = Some v"
    from resolved_kw_only [OF this] show "k = ''cert'' \<or> k = ''key'' \<or> ctxdef k = Some v"
      by (auto split: if_splits)
  qed
  have "?d ''cert'' = Some ?certfile" "?d ''key'' = Some ?keyfile"
    by (simp_all only: resolved_kw_lookup)
  with c k have "\<exists>cert key. ctxdef ''cert'' = Some cert \<and> ctxdef ''key'' = Some key
                     \<and> ?d ''cert'' = Some (py_or (dict_get ctxdef ''certificate'' PyNone) cert)
                     \<and> ?d ''key'' = Some (py_or (dict_get ctxdef ''keyfile'' PyNone) key)"
    by blast
  with d dn only
  show "\<exists>d. sanic self = Some d
               \<and> d ''names'' = Some names
               \<and> (\<forall>k v. d k = Some v \<longrightarrow> k = ''cert'' \<or> k = ''key'' \<or> ctxdef k = Some v)
               \<and> (\<exists>cert key. ctxdef ''cert'' = Some cert \<and> ctxdef ''key'' = Some key
                     \<and> d ''cert'' = Some (py_or (dict_get ctxdef ''certificate'' PyNone) cert)
                     \<and> d ''key'' = Some (py_or (dict_get ctxdef ''keyfile'' PyNone) key))"
    by blast
qed

lemma CertSimple_with_names:
  assumes "c \<noteq> []" and "k \<noteq> []"
  shows "CertSimple loading_platform [''cert'' \<mapsto> PyStr c, ''key'' \<mapsto> PyStr k, ''names'' \<mapsto> PyStrs ns]
         = Inr (certsimple_with_names c k ns)"
proof -
  let ?kw = "[''names'' \<mapsto> PyStrs ns]"
  have n: "?kw ''names'' = Some (PyStrs ns)" by simp
  have m: "resolved_kw [''names'' \<mapsto> PyStrs ns] (PyStr c) (PyStr k)
           = [''cert'' \<mapsto> PyStr c, ''key'' \<mapsto> PyStr k, ''names'' \<mapsto> PyStrs ns]"
    by (rule ext) (simp add: resolved_kw_def)
  have new: "CertSimple_new loading_platform (PyStr c) (PyStr k) ?kw = Inr (certsimple_with_names c k ns)"
    unfolding CertSimple_new_names [of ?kw "PyStrs ns", OF n]
    using assms
    by (simp add: dict_get_def py_or_def create_context_def loading_platform_def
          certsimple_with_names_def m Let_def)
  show ?thesis
    by (simp add: CertSimple_def new)
qed

text \<open>C10 on a mapping with \<open>cert\<close>, \<open>key\<close> and \<open>names\<close>, on a platform where
  decoding fails and on one where it would give another name.\<close>

theorem CertSimple_explicit_names_witness:
  "[''cert'' \<mapsto> PyStr ''a.pem'', ''key'' \<mapsto> PyStr ''a.key'', ''names'' \<mapsto> PyStrs [''x.com'']] ''names''
     = Some (PyStrs [''x.com''])
   \<and> CertSimple loading_platform
        [''cert'' \<mapsto> PyStr ''a.pem'', ''key'' \<mapsto> PyStr ''a.key'', ''names'' \<mapsto> PyStrs [''x.com'']]
       = Inr (certsimple_with_names ''a.pem'' ''a.key'' [''x.com''])
   \<and> CertSimple
        (loading_platform\<lparr>test_decode_cert :=
           (\<lambda>certfile. Inr \<lparr>subject = [[(''commonName'', ''other.com'')]],
                              subjectAltName = Some [(''DNS'', ''other.com'')]\<rparr>)\<rparr>)
        [''cert'' \<mapsto> PyStr ''a.pem'', ''key'' \<mapsto> PyStr ''a.key'', ''names'' \<mapsto> PyStrs [''x.com'']]
       = Inr (certsimple_with_names ''a.pem'' ''a.key'' [''x.com''])
   \<and> names_of (certsimple_with_names ''a.pem'' ''a.key'' [''x.com'']) = PyStrs [''x.com'']"
proof -
  let ?ctxdef = "[''cert'' \<mapsto> PyStr ''a.pem'', ''key'' \<mapsto> PyStr ''a.key'',
                  ''names'' \<mapsto> PyStrs [''x.com'']]"
  have n: "?ctxdef ''names'' = Some (PyStrs [''x.com''])" by simp
  have r: "CertSimple loading_platform ?ctxdef = Inr (certsimple_with_names ''a.pem'' ''a.key'' [''x.com''])"
    by (rule CertSimple_with_names) simp_all
  note t = CertSimple_explicit_names [where ctxdef = ?ctxdef and names = "PyStrs [''x.com'']"
      and pf = loading_platform
      and decode = "\<lambda>certfile. Inr \<lparr>subject = [[(''commonName'', ''other.com'')]],
                              subjectAltName = Some [(''DNS'', ''other.com'')]\<rparr>"
      and self = "certsimple_with_names ''a.pem'' ''a.key'' [''x.com'']", THEN mp, OF n]
  from t r have "names_of (certsimple_with_names ''a.pem'' ''a.key'' [''x.com'']) = PyStrs [''x.com'']"
    by blast
  moreover from t r have "CertSimple
        (loading_platform\<lparr>test_decode_cert :=
           (\<lambda>certfile. Inr \<lparr>subject = [[(''commonName'', ''other.com'')]],
                              subjectAltName = Some [(''DNS'', ''other.com'')]\<rparr>)\<rparr>) ?ctxdef
       = Inr (certsimple_with_names ''a.pem'' ''a.key'' [''x.com''])"
    by (simp only:)
  ultimately show ?thesis using n r by blast
qed

text \<open>Without a \<open>names\<close> key the served names are the DNS and IP address entries of
  the decoded certificate, as they stand.\<close>

lemma CertSimple_decodes:
  assumes "test_decode_cert pf (PyStr c) = Inr cert" and "subjectAltName cert = Some san"
    and "CertSimple pf [''cert'' \<mapsto> PyStr c, ''key'' \<mapsto> PyStr k] = Inr self"
  shows "names_of self =
           PyStrs (map snd (filter (\<lambda>(t, name). t \<in> set [''DNS'', ''IP Address'']) san))"
  using assms
  by (auto simp: CertSimple_def CertSimple_new_def dict_pop_def dict_get_def py_or_def Let_def
        names_of_def map_add_def split: if_splits sum.splits)

text \<open>
  Claim C7 fails on the code. A mapping that gives the file names under the aliases
  \<open>certificate\<close> and \<open>keyfile\<close> only is not resolved: \<open>cert\<close> and \<open>key\<close> are
  parameters of \<open>__new__\<close> without a default, so the call raises a \<open>TypeError\<close> before
  the aliases are looked at. The empty mapping raises the same \<open>TypeError\<close>, not the
  \<open>ValueError\<close> of the module, which needs \<open>cert\<close> and \<open>key\<close> to be there.
\<close>

theorem CertSimple_aliases_alone:
  "CertSimple pf [''certificate'' \<mapsto> PyStr ''/p/fullchain.pem'', ''keyfile'' \<mapsto> PyStr ''/p/privkey.pem'']
     = Inl (TypeError_missing_args [''cert'', ''key''])
   \<and> shorthand_to_ctx pf
        (DefDict [''certificate'' \<mapsto> PyStr ''/p/fullchain.pem'', ''keyfile'' \<mapsto> PyStr ''/p/privkey.pem''])
     = Inl (TypeError_missing_args [''cert'', ''key''])
   \<and> shorthand_to_ctx pf (DefDict Map.empty) = Inl (TypeError_missing_args [''cert'', ''key''])
   \<and> shorthand_to_ctx pf (DefDict [''cert'' \<mapsto> PyNone, ''key'' \<mapsto> PyNone])
     = Inl ValueError_ssl_dict"
  by (simp add: CertSimple_def CertSimple_new_def dict_pop_def dict_get_def py_or_def)

text \<open>The aliases are honoured where the mapping has the keys \<open>cert\<close> and \<open>key\<close>
  as well.\<close>

lemma CertSimple_aliases_beside_cert_and_key:
  "\<exists>self. shorthand_to_ctx loading_platform
      (DefDict [''cert'' \<mapsto> PyNone, ''key'' \<mapsto> PyNone,
                ''certificate'' \<mapsto> PyStr ''/p/fullchain.pem'', ''keyfile'' \<mapsto> PyStr ''/p/privkey.pem'',
                ''names'' \<mapsto> PyStrs [''x.com'']]) = Inr (Some self)
     \<and> cert_chain self = Some (PyStr ''/p/fullchain.pem'', PyStr ''/p/privkey.pem'', PyNone)"
  by (simp add: CertSimple_def CertSimple_new_def dict_pop_def dict_get_def py_or_def
        create_context_def loading_platform_def Let_def)

section \<open>The selector on an identity whose names are None\<close>



end
